theory Spec2Isabelle
  imports Complex_Main
begin

section \<open>JavaScript values\<close>

text \<open>
  The two facades pass JavaScript values through to vendor SDKs, so the model starts with
  the values themselves. Numbers are IEEE doubles in the program; the model keeps \<open>NaN\<close> and
  the two infinities apart from the finite values and represents a finite value by the
  rational it denotes (\<open>-0\<close> and \<open>+0\<close> are identified; both are falsy and neither is
  \<open>NaN\<close>). Strings are ASCII strings.

  \<open>JObj\<close> is a plain object (prototype \<open>Object.prototype\<close>): the list of its own enumerable
  properties in the order \<open>for ... in\<close> visits them. \<open>JError\<close> is the object built by
  \<open>new Error(message)\<close>. A symbol is known by its identity. Functions are not modelled,
  so no property of an object is callable and no value is a thenable.
\<close>

datatype number = NaN | PosInfinity | NegInfinity | Finite rat

datatype jsval =
    JUndefined
  | JNull
  | JBool bool
  | JNum number
  | JBigInt int
  | JStr string
  | JSymbol nat
  | JArr "jsval list"
  | JObj "(string \<times> jsval) list"
  | JError string

datatype js_exception = TypeError

subsection \<open>ToBoolean\<close>

fun truthy :: "jsval \<Rightarrow> bool" where
  "truthy JUndefined = False"
| "truthy JNull = False"
| "truthy (JBool b) = b"
| "truthy (JNum n) = (n \<noteq> NaN \<and> n \<noteq> Finite 0)"
| "truthy (JBigInt n) = (n \<noteq> 0)"
| "truthy (JStr s) = (s \<noteq> [])"
| "truthy (JSymbol s) = True"
| "truthy (JArr xs) = True"
| "truthy (JObj ps) = True"
| "truthy (JError m) = True"

text \<open>\<open>a || b\<close>\<close>

definition js_or :: "jsval \<Rightarrow> jsval \<Rightarrow> jsval" where
  "js_or a b = (if truthy a then a else b)"

subsection \<open>ToNumber and \<open>isNaN\<close>\<close>

text \<open>
  A string converts by the \<open>StringNumericLiteral\<close> grammar: surrounding white space is
  dropped, the empty string is \<open>0\<close>, then comes either an unsigned \<open>0x\<close>, \<open>0o\<close> or \<open>0b\<close>
  integer or a signed decimal literal (\<open>Infinity\<close>, digits with an optional fraction and
  exponent). Anything else is \<open>NaN\<close>. The value computed is the one the literal denotes;
  rounding to a double is left out, and it never turns a number into \<open>NaN\<close> or back.
\<close>

definition is_ws :: "char \<Rightarrow> bool" where
  "is_ws c = (c \<in> set [CHR 0x09, CHR 0x0A, CHR 0x0B, CHR 0x0C, CHR 0x0D, CHR 0x20])"

definition trim :: "string \<Rightarrow> string" where
  "trim s = rev (dropWhile is_ws (rev (dropWhile is_ws s)))"

definition digit_of :: "char \<Rightarrow> nat option" where
  "digit_of c =
     (let n = (of_char c :: nat) in
      if 48 \<le> n \<and> n \<le> 57 then Some (n - 48)
      else if 97 \<le> n \<and> n \<le> 102 then Some (n - 87)
      else if 65 \<le> n \<and> n \<le> 70 then Some (n - 55)
      else None)"

definition is_dec :: "char \<Rightarrow> bool" where
  "is_dec c = (case digit_of c of Some d \<Rightarrow> d < 10 | None \<Rightarrow> False)"

fun digits_val :: "nat \<Rightarrow> nat \<Rightarrow> string \<Rightarrow> nat option" where
  "digits_val b acc [] = Some acc"
| "digits_val b acc (c # cs) =
     (case digit_of c of
        Some d \<Rightarrow> if d < b then digits_val b (acc * b + d) cs else None
      | None \<Rightarrow> None)"

text \<open>One digit at least, all of them below the base.\<close>

definition digits :: "nat \<Rightarrow> string \<Rightarrow> nat option" where
  "digits b s = (if s = [] then None else digits_val b 0 s)"

definition signed_integer :: "string \<Rightarrow> int option" where
  "signed_integer s =
     (case s of
        c # t \<Rightarrow>
          if c = CHR ''+'' then map_option int (digits 10 t)
          else if c = CHR ''-'' then map_option (\<lambda>n. - int n) (digits 10 t)
          else map_option int (digits 10 s)
      | [] \<Rightarrow> None)"

definition exponent_part :: "string \<Rightarrow> int option" where
  "exponent_part s =
     (case s of
        [] \<Rightarrow> Some 0
      | c # t \<Rightarrow> if c = CHR ''e'' \<or> c = CHR ''E'' then signed_integer t else None)"

definition pow10 :: "int \<Rightarrow> rat" where
  "pow10 e = (if 0 \<le> e then 10 ^ nat e else 1 / 10 ^ nat (- e))"

definition unsigned_decimal :: "string \<Rightarrow> number" where
  "unsigned_decimal s =
     (if s = ''Infinity'' then PosInfinity
      else
        let ip = takeWhile is_dec s;
            r1 = dropWhile is_dec s;
            fp = (case r1 of [] \<Rightarrow> [] | c # t \<Rightarrow> if c = CHR ''.'' then takeWhile is_dec t else []);
            r2 = (case r1 of [] \<Rightarrow> [] | c # t \<Rightarrow> if c = CHR ''.'' then dropWhile is_dec t else r1)
        in if ip = [] \<and> fp = [] then NaN
           else (case (digits_val 10 0 (ip @ fp), exponent_part r2) of
                   (Some m, Some e) \<Rightarrow> Finite (of_nat m * pow10 (e - int (length fp)))
                 | _ \<Rightarrow> NaN))"

fun negate :: "number \<Rightarrow> number" where
  "negate NaN = NaN"
| "negate PosInfinity = NegInfinity"
| "negate NegInfinity = PosInfinity"
| "negate (Finite r) = Finite (- r)"

definition signed_decimal :: "string \<Rightarrow> number" where
  "signed_decimal s =
     (case s of
        c # t \<Rightarrow>
          if c = CHR ''+'' then unsigned_decimal t
          else if c = CHR ''-'' then negate (unsigned_decimal t)
          else unsigned_decimal s
      | [] \<Rightarrow> NaN)"

definition non_decimal :: "string \<Rightarrow> nat option" where
  "non_decimal s =
     (case s of
        z # x # t \<Rightarrow>
          if z \<noteq> CHR ''0'' then None
          else if x = CHR ''x'' \<or> x = CHR ''X'' then digits 16 t
          else if x = CHR ''o'' \<or> x = CHR ''O'' then digits 8 t
          else if x = CHR ''b'' \<or> x = CHR ''B'' then digits 2 t
          else None
      | _ \<Rightarrow> None)"

definition string_to_number :: "string \<Rightarrow> number" where
  "string_to_number s =
     (let t = trim s in
      if t = [] then Finite 0
      else (case non_decimal t of
              Some n \<Rightarrow> Finite (of_nat n)
            | None \<Rightarrow> signed_decimal t))"

text \<open>
  Conversion can throw. A BigInt and a symbol do not convert to a number: \<open>ToNumber\<close>
  throws a \<open>TypeError\<close>. An object is first made primitive, by its \<open>valueOf\<close> and then its
  \<open>toString\<close>, each used only if it is callable and only if it returns a primitive. The
  inherited \<open>valueOf\<close> returns the object itself, and an own property named \<open>valueOf\<close> or
  \<open>toString\<close> holds a value that is not callable. So a plain object converts through the
  inherited \<open>toString\<close>, which prints \<open>[object Object]\<close>, unless an own \<open>toString\<close> property
  shadows it: then nothing yields a primitive and a \<open>TypeError\<close> is thrown, as for
  \<open>{toString: 1}\<close>. An error prints as \<open>Error: ...\<close>.

  \<open>stringifies v\<close> says that printing \<open>v\<close> as a string completes. Printing a symbol throws,
  printing a plain object throws under the same condition as above, and an array prints
  as its elements joined by commas, \<open>null\<close> and \<open>undefined\<close> printing as nothing, so it
  throws when printing one of its elements does.
\<close>

fun stringifies :: "jsval \<Rightarrow> bool" where
  "stringifies (JObj ps) = (map_of ps ''toString'' = None)"
| "stringifies (JArr xs) = list_all stringifies xs"
| "stringifies (JSymbol s) = False"
| "stringifies v = True"

text \<open>
  An array converts through its string form: the empty array gives the empty string, a
  one-element array gives what its element prints as (a number or a BigInt prints as a
  literal that reads back as the same number, \<open>true\<close> and \<open>false\<close> are not numeric), and a
  longer array, when it prints at all, has a comma in it.
\<close>

fun ToNumber :: "jsval \<Rightarrow> js_exception + number" where
  "ToNumber JUndefined = Inr NaN"
| "ToNumber JNull = Inr (Finite 0)"
| "ToNumber (JBool b) = Inr (Finite (if b then 1 else 0))"
| "ToNumber (JNum n) = Inr n"
| "ToNumber (JBigInt n) = Inl TypeError"
| "ToNumber (JStr s) = Inr (string_to_number s)"
| "ToNumber (JSymbol s) = Inl TypeError"
| "ToNumber (JObj ps) = (if stringifies (JObj ps) then Inr NaN else Inl TypeError)"
| "ToNumber (JError m) = Inr NaN"
| "ToNumber (JArr []) = Inr (Finite 0)"
| "ToNumber (JArr [JUndefined]) = Inr (Finite 0)"
| "ToNumber (JArr [JNull]) = Inr (Finite 0)"
| "ToNumber (JArr [JBool b]) = Inr NaN"
| "ToNumber (JArr [JBigInt n]) = Inr (Finite (of_int n))"
| "ToNumber (JArr [x]) = ToNumber x"
| "ToNumber (JArr (x # y # zs)) =
     (if list_all stringifies (x # y # zs) then Inr NaN else Inl TypeError)"

text \<open>\<open>isNaN(v)\<close> converts \<open>v\<close> to a number, throwing when the conversion does.\<close>

definition isNaN :: "jsval \<Rightarrow> js_exception + bool" where
  "isNaN v = (case ToNumber v of Inl exn \<Rightarrow> Inl exn | Inr n \<Rightarrow> Inr (n = NaN))"

subsection \<open>Property reads\<close>

text \<open>
  \<open>x.k\<close> for a property name \<open>k\<close> that no built-in prototype defines; the program reads
  only \<open>data\<close>, \<open>code\<close> and \<open>html\<close>. Reading a property of \<open>undefined\<close> or \<open>null\<close> throws
  a \<open>TypeError\<close>; a missing property reads as \<open>undefined\<close>.
\<close>

fun get_field :: "string \<Rightarrow> jsval \<Rightarrow> js_exception + jsval" where
  "get_field k JUndefined = Inl TypeError"
| "get_field k JNull = Inl TypeError"
| "get_field k (JObj ps) = Inr (case map_of ps k of Some v \<Rightarrow> v | None \<Rightarrow> JUndefined)"
| "get_field k v = Inr JUndefined"

section \<open>Futures and vendor calls\<close>

text \<open>
  A Q promise is pending, fulfilled with a value or rejected with a reason. What an
  operation does is recorded as the list of vendor SDK calls it issued, in order, and the
  state its returned promise reaches once the vendor has answered.
\<close>

datatype future = Pending | Resolved jsval | Rejected jsval

record 'c outcome =
  calls :: "'c list"
  promise :: future

text \<open>\<open>Q.reject(new Error(message))\<close>, returned before anything is sent.\<close>

definition reject_with :: "string \<Rightarrow> 'c outcome" where
  "reject_with message = \<lparr>calls = [], promise = Rejected (JError message)\<rparr>"

section \<open>The payment client\<close>

text \<open>
  The constructor binds the API key in the SDK and takes no part in what follows; an
  operation is modelled as a function of the SDK and its arguments. An operation returns
  a future. \<open>createTransaction\<close> alone can throw instead, when \<open>isNaN(amount)\<close> does, and
  then returns nothing.
\<close>

text \<open>
  The methods of the payment SDK, and a call as the method with the arguments passed ahead
  of the callback. \<open>CustomersUpdate\<close> belongs to the SDK but the client never calls it.
\<close>

datatype stripe_method =
    ChargesCreate | ChargesRetrieve | ChargesList
  | CustomersCreate | CustomersRetrieve | CustomersUpdate | CustomersDel | CustomersList
  | TokensCreate | TokensRetrieve
  | AccountsCreate
  | CustomersCreateSource | CustomersRetrieveCard | CustomersDeleteCard | CustomersListCards

datatype stripe_call = Call stripe_method "jsval list"

text \<open>
  The SDK answers a call by invoking the Node-style callback with \<open>(err, result)\<close>, or
  never invokes it.
\<close>

type_synonym stripe_sdk = "stripe_call \<Rightarrow> (jsval \<times> jsval) option"

text \<open>
  The callback every operation but the list operations installs:
  \<open>if (err) return deferred.reject(err); return deferred.resolve(result);\<close>
\<close>

fun on_reply :: "(jsval \<times> jsval) option \<Rightarrow> future" where
  "on_reply None = Pending"
| "on_reply (Some (err, result)) = (if truthy err then Rejected err else Resolved result)"

text \<open>
  The callback of the list operations resolves with \<open>result.data\<close>. When that read throws,
  the exception leaves the callback and the deferred is never settled.
\<close>

fun on_list_reply :: "(jsval \<times> jsval) option \<Rightarrow> future" where
  "on_list_reply None = Pending"
| "on_list_reply (Some (err, result)) =
     (if truthy err then Rejected err
      else (case get_field ''data'' result of
              Inl exn \<Rightarrow> Pending
            | Inr d \<Rightarrow> Resolved d))"

definition issue :: "stripe_sdk \<Rightarrow> stripe_call \<Rightarrow> stripe_call outcome" where
  "issue stripe c = \<lparr>calls = [c], promise = on_reply (stripe c)\<rparr>"

definition issue_list :: "stripe_sdk \<Rightarrow> stripe_call \<Rightarrow> stripe_call outcome" where
  "issue_list stripe c = \<lparr>calls = [c], promise = on_list_reply (stripe c)\<rparr>"

subsection \<open>Transactions\<close>

definition createTransaction ::
  "stripe_sdk \<Rightarrow> jsval \<Rightarrow> jsval \<Rightarrow> jsval \<Rightarrow> js_exception + stripe_call outcome" where
  "createTransaction stripe amount stripeToken currency =
     (case isNaN amount of
        Inl exn \<Rightarrow> Inl exn
      | Inr nan \<Rightarrow>
          if nan then Inr (reject_with ''amount is required and must be a number'')
          else if \<not> truthy stripeToken then Inr (reject_with ''stripeToken required'')
          else
            let charge = JObj [(''amount'', amount),
                               (''currency'', js_or currency (JStr ''usd'')),
                               (''customer'', stripeToken)]
            in Inr (issue stripe (Call ChargesCreate [charge])))"

definition getTransaction :: "stripe_sdk \<Rightarrow> jsval \<Rightarrow> stripe_call outcome" where
  "getTransaction stripe chargeId =
     (if \<not> truthy chargeId then reject_with ''chargeId required''
      else issue stripe (Call ChargesRetrieve [chargeId]))"

definition listTransactions :: "stripe_sdk \<Rightarrow> jsval \<Rightarrow> stripe_call outcome" where
  "listTransactions stripe limit =
     (let paginate = JObj [(''limit'', js_or limit (JNum (Finite 10)))]
      in issue_list stripe (Call ChargesList [paginate]))"

subsection \<open>Users\<close>

definition createUser ::
  "stripe_sdk \<Rightarrow> jsval \<Rightarrow> jsval \<Rightarrow> jsval \<Rightarrow> stripe_call outcome" where
  "createUser stripe email metadata description =
     (if \<not> truthy email then reject_with ''email required''
      else if \<not> truthy metadata then reject_with ''metadata required''
      else
        let customer = JObj [(''email'', email),
                             (''metadata'', metadata),
                             (''description'', js_or description (JStr []))]
        in issue stripe (Call CustomersCreate [customer]))"

definition getUser :: "stripe_sdk \<Rightarrow> jsval \<Rightarrow> stripe_call outcome" where
  "getUser stripe userId =
     (if \<not> truthy userId then reject_with ''userId required''
      else issue stripe (Call CustomersRetrieve [userId]))"

definition updateUser :: "stripe_sdk \<Rightarrow> jsval \<Rightarrow> jsval \<Rightarrow> stripe_call outcome" where
  "updateUser stripe userId userObject =
     (if \<not> truthy userId then reject_with ''userId required''
      else if \<not> truthy userObject then reject_with ''userObject required''
      else issue stripe (Call CustomersRetrieve [userId, userObject]))"

definition deleteUser :: "stripe_sdk \<Rightarrow> jsval \<Rightarrow> stripe_call outcome" where
  "deleteUser stripe userId =
     (if \<not> truthy userId then reject_with ''userId required''
      else issue stripe (Call CustomersDel [userId]))"

definition listUsers :: "stripe_sdk \<Rightarrow> jsval \<Rightarrow> stripe_call outcome" where
  "listUsers stripe limit =
     (let paginate = JObj [(''limit'', js_or limit (JNum (Finite 10)))]
      in issue_list stripe (Call CustomersList [paginate]))"

subsection \<open>Tokens\<close>

definition createToken ::
  "stripe_sdk \<Rightarrow> jsval \<Rightarrow> jsval \<Rightarrow> jsval \<Rightarrow> jsval \<Rightarrow> stripe_call outcome" where
  "createToken stripe cardNumber cvv expirationMonth expirationYear =
     (if \<not> truthy cardNumber then reject_with ''cardNumber required''
      else if \<not> truthy cvv then reject_with ''cvv required''
      else if \<not> truthy expirationMonth then reject_with ''expirationMonth required''
      else if \<not> truthy expirationYear then reject_with ''expirationYear required''
      else
        let cardObj = JObj [(''card'', JObj [(''number'', cardNumber),
                                             (''exp_month'', expirationMonth),
                                             (''exp_year'', expirationYear),
                                             (''cvc'', cvv)])]
        in issue stripe (Call TokensCreate [cardObj]))"

definition getToken :: "stripe_sdk \<Rightarrow> jsval \<Rightarrow> stripe_call outcome" where
  "getToken stripe tokenId =
     (if \<not> truthy tokenId then reject_with ''tokenId required''
      else issue stripe (Call TokensRetrieve [tokenId]))"

subsection \<open>Account\<close>

definition createAccount :: "stripe_sdk \<Rightarrow> jsval \<Rightarrow> jsval \<Rightarrow> stripe_call outcome" where
  "createAccount stripe isManaged email =
     (let account = JObj [(''managed'', isManaged), (''email'', email)]
      in issue stripe (Call AccountsCreate [account]))"

subsection \<open>Cards\<close>

definition createCard ::
  "stripe_sdk \<Rightarrow> jsval \<Rightarrow> jsval \<Rightarrow> jsval \<Rightarrow> jsval \<Rightarrow> jsval \<Rightarrow> stripe_call outcome" where
  "createCard stripe userId cardNumber expirationMonth expirationYear cvv =
     (if \<not> truthy userId then reject_with ''userId required''
      else if \<not> truthy cardNumber then reject_with ''cardNumber required''
      else if \<not> truthy expirationMonth then reject_with ''expirationMonth required''
      else if \<not> truthy expirationYear then reject_with ''expirationYear required''
      else if \<not> truthy cvv then reject_with ''cvv required''
      else
        let cardDetails = JObj [(''source'', JObj [(''object'', JStr ''card''),
                                                   (''exp_month'', expirationMonth),
                                                   (''exp_year'', expirationYear),
                                                   (''number'', cardNumber),
                                                   (''cvc'', cvv)])]
        in issue stripe (Call CustomersCreateSource [userId, cardDetails]))"

definition getCard :: "stripe_sdk \<Rightarrow> jsval \<Rightarrow> jsval \<Rightarrow> stripe_call outcome" where
  "getCard stripe userId cardId =
     (if \<not> truthy cardId then reject_with ''cardId required''
      else if \<not> truthy userId then reject_with ''userId required''
      else issue stripe (Call CustomersRetrieveCard [userId, cardId]))"

definition deleteCard :: "stripe_sdk \<Rightarrow> jsval \<Rightarrow> jsval \<Rightarrow> stripe_call outcome" where
  "deleteCard stripe userId cardId =
     (if \<not> truthy cardId then reject_with ''cardId required''
      else if \<not> truthy userId then reject_with ''userId required''
      else issue stripe (Call CustomersDeleteCard [userId, cardId]))"

definition listCards :: "stripe_sdk \<Rightarrow> jsval \<Rightarrow> stripe_call outcome" where
  "listCards stripe userId =
     (if \<not> truthy userId then reject_with ''userId required''
      else issue_list stripe (Call CustomersListCards [userId]))"

subsection \<open>Calling an operation with an argument list\<close>

text \<open>
  A JavaScript call binds the parameters to the arguments by position; a parameter with
  no argument is \<open>undefined\<close>. The call returns the operation's outcome (\<open>Inr\<close>) or throws
  (\<open>Inl\<close>).
\<close>

datatype operation =
    CreateTransaction | GetTransaction | ListTransactions
  | CreateUser | GetUser | UpdateUser | DeleteUser | ListUsers
  | CreateToken | GetToken
  | CreateAccount
  | CreateCard | GetCard | DeleteCard | ListCards

definition arg :: "jsval list \<Rightarrow> nat \<Rightarrow> jsval" where
  "arg args i = (if i < length args then args ! i else JUndefined)"

fun invoke ::
  "stripe_sdk \<Rightarrow> operation \<Rightarrow> jsval list \<Rightarrow> js_exception + stripe_call outcome" where
  "invoke stripe CreateTransaction args =
     createTransaction stripe (arg args 0) (arg args 1) (arg args 2)"
| "invoke stripe GetTransaction args = Inr (getTransaction stripe (arg args 0))"
| "invoke stripe ListTransactions args = Inr (listTransactions stripe (arg args 0))"
| "invoke stripe CreateUser args =
     Inr (createUser stripe (arg args 0) (arg args 1) (arg args 2))"
| "invoke stripe GetUser args = Inr (getUser stripe (arg args 0))"
| "invoke stripe UpdateUser args = Inr (updateUser stripe (arg args 0) (arg args 1))"
| "invoke stripe DeleteUser args = Inr (deleteUser stripe (arg args 0))"
| "invoke stripe ListUsers args = Inr (listUsers stripe (arg args 0))"
| "invoke stripe CreateToken args =
     Inr (createToken stripe (arg args 0) (arg args 1) (arg args 2) (arg args 3))"
| "invoke stripe GetToken args = Inr (getToken stripe (arg args 0))"
| "invoke stripe CreateAccount args = Inr (createAccount stripe (arg args 0) (arg args 1))"
| "invoke stripe CreateCard args =
     Inr (createCard stripe (arg args 0) (arg args 1) (arg args 2) (arg args 3) (arg args 4))"
| "invoke stripe GetCard args = Inr (getCard stripe (arg args 0) (arg args 1))"
| "invoke stripe DeleteCard args = Inr (deleteCard stripe (arg args 0) (arg args 1))"
| "invoke stripe ListCards args = Inr (listCards stripe (arg args 0))"

text \<open>The parameter names of each operation, in the order its signature declares them.\<close>

fun parameters :: "operation \<Rightarrow> string list" where
  "parameters CreateTransaction = [''amount'', ''stripeToken'', ''currency'']"
| "parameters GetTransaction = [''chargeId'']"
| "parameters ListTransactions = [''limit'']"
| "parameters CreateUser = [''email'', ''metadata'', ''description'']"
| "parameters GetUser = [''userId'']"
| "parameters UpdateUser = [''userId'', ''userObject'']"
| "parameters DeleteUser = [''userId'']"
| "parameters ListUsers = [''limit'']"
| "parameters CreateToken = [''cardNumber'', ''cvv'', ''expirationMonth'', ''expirationYear'']"
| "parameters GetToken = [''tokenId'']"
| "parameters CreateAccount = [''isManaged'', ''email'']"
| "parameters CreateCard =
     [''userId'', ''cardNumber'', ''expirationMonth'', ''expirationYear'', ''cvv'']"
| "parameters GetCard = [''userId'', ''cardId'']"
| "parameters DeleteCard = [''userId'', ''cardId'']"
| "parameters ListCards = [''userId'']"

text \<open>The required parameters: those an operation guards with a precondition check.\<close>

fun required :: "operation \<Rightarrow> string list" where
  "required CreateTransaction = [''amount'', ''stripeToken'']"
| "required CreateUser = [''email'', ''metadata'']"
| "required ListTransactions = []"
| "required ListUsers = []"
| "required CreateAccount = []"
| "required op = parameters op"

text \<open>
  The condition of the guard on a required parameter, evaluated on the argument:
  \<open>isNaN(amount)\<close> for the amount of \<open>createTransaction\<close>, which can throw, and \<open>!x\<close> for
  every other one.
\<close>

definition fails_check :: "operation \<Rightarrow> nat \<Rightarrow> jsval \<Rightarrow> js_exception + bool" where
  "fails_check op i v =
     (if op = CreateTransaction \<and> i = 0 then isNaN v else Inr (\<not> truthy v))"

definition check_message :: "string \<Rightarrow> string" where
  "check_message name =
     (if name = ''amount'' then ''amount is required and must be a number''
      else name @ '' required'')"

definition is_required :: "operation \<Rightarrow> nat \<Rightarrow> bool" where
  "is_required op i = (i < length (parameters op) \<and> parameters op ! i \<in> set (required op))"

text \<open>
  The positions of the required parameters whose guard holds of the argument, and those
  whose guard throws on it.
\<close>

definition failing :: "operation \<Rightarrow> jsval list \<Rightarrow> nat list" where
  "failing op args =
     filter (\<lambda>i. is_required op i \<and> fails_check op i (arg args i) = Inr True)
       [0..<length (parameters op)]"

definition throwing :: "operation \<Rightarrow> jsval list \<Rightarrow> nat list" where
  "throwing op args =
     filter (\<lambda>i. is_required op i \<and> isl (fails_check op i (arg args i)))
       [0..<length (parameters op)]"

definition missing_or_empty :: "jsval \<Rightarrow> bool" where
  "missing_or_empty v = (v = JUndefined \<or> v = JNull \<or> v = JStr [])"

definition is_list_operation :: "operation \<Rightarrow> bool" where
  "is_list_operation op = (op = ListTransactions \<or> op = ListUsers \<or> op = ListCards)"

text \<open>An SDK that never calls back.\<close>

definition silent_sdk :: stripe_sdk where
  "silent_sdk c = None"

section \<open>The template mail client\<close>

datatype mandrill_method = TemplatesInfo | TemplatesRender

datatype mandrill_call = Request mandrill_method jsval

text \<open>
  The mail SDK takes a success and an error callback and invokes one of them, or neither.
\<close>

datatype mandrill_reply = OnSuccess jsval | OnError jsval | NoReply

type_synonym mandrill_client = "mandrill_call \<Rightarrow> mandrill_reply"

subsection \<open>\<open>for (var param in params)\<close>\<close>

fun show_nat :: "nat \<Rightarrow> string" where
  "show_nat n =
     (if n < 10 then [char_of (48 + n)]
      else show_nat (n div 10) @ [char_of (48 + n mod 10)])"

declare show_nat.simps [simp del]

text \<open>
  The own enumerable properties of a value, in enumeration order: those of a plain object,
  the elements of an array under their indices, the characters of a string under theirs;
  \<open>undefined\<close>, \<open>null\<close>, numbers, BigInts, booleans, symbols and errors have none.
\<close>

fun own_enumerable :: "jsval \<Rightarrow> (string \<times> jsval) list" where
  "own_enumerable (JObj ps) = ps"
| "own_enumerable (JArr xs) = zip (map show_nat [0..<length xs]) xs"
| "own_enumerable (JStr s) = zip (map show_nat [0..<length s]) (map (\<lambda>c. JStr [c]) s)"
| "own_enumerable v = []"

definition for_in_keys :: "jsval \<Rightarrow> string list" where
  "for_in_keys v = map fst (own_enumerable v)"

text \<open>\<open>params[param]\<close> for a key the loop has produced.\<close>

definition get_computed :: "jsval \<Rightarrow> string \<Rightarrow> jsval" where
  "get_computed v k = (case map_of (own_enumerable v) k of Some x \<Rightarrow> x | None \<Rightarrow> JUndefined)"

definition merge_var :: "string \<Rightarrow> jsval \<Rightarrow> jsval" where
  "merge_var param content = JObj [(''name'', JStr param), (''content'', content)]"

text \<open>The loop body pushes one entry on \<open>mergeVars\<close> for each key.\<close>

fun push_merge_vars :: "jsval \<Rightarrow> string list \<Rightarrow> jsval list \<Rightarrow> jsval list" where
  "push_merge_vars params [] mergeVars = mergeVars"
| "push_merge_vars params (param # rest) mergeVars =
     push_merge_vars params rest (mergeVars @ [merge_var param (get_computed params param)])"

subsection \<open>\<open>getContent\<close>\<close>

definition info_request :: "jsval \<Rightarrow> mandrill_call" where
  "info_request templateName = Request TemplatesInfo (JObj [(''name'', templateName)])"

definition render_request :: "jsval \<Rightarrow> jsval \<Rightarrow> jsval list \<Rightarrow> mandrill_call" where
  "render_request templateName code mergeVars =
     Request TemplatesRender
       (JObj [(''template_name'', templateName),
              (''template_content'', code),
              (''merge_vars'', JArr mergeVars)])"

text \<open>
  The success callback of the render call resolves with \<open>content.html\<close>, its error callback
  rejects. A read of \<open>result.code\<close> or \<open>content.html\<close> that throws leaves the deferred
  unsettled.
\<close>

fun on_render :: "mandrill_reply \<Rightarrow> future" where
  "on_render NoReply = Pending"
| "on_render (OnError err) = Rejected err"
| "on_render (OnSuccess content) =
     (case get_field ''html'' content of
        Inl exn \<Rightarrow> Pending
      | Inr html \<Rightarrow> Resolved html)"

definition getContent :: "mandrill_client \<Rightarrow> jsval \<Rightarrow> jsval \<Rightarrow> mandrill_call outcome" where
  "getContent mandrillClient templateName params =
     (case mandrillClient (info_request templateName) of
        NoReply \<Rightarrow> \<lparr>calls = [info_request templateName], promise = Pending\<rparr>
      | OnError err \<Rightarrow> \<lparr>calls = [info_request templateName], promise = Rejected err\<rparr>
      | OnSuccess result \<Rightarrow>
          let mergeVars = push_merge_vars params (for_in_keys params) []
          in (case get_field ''code'' result of
                Inl exn \<Rightarrow> \<lparr>calls = [info_request templateName], promise = Pending\<rparr>
              | Inr code \<Rightarrow>
                  \<lparr>calls = [info_request templateName,
                            render_request templateName code mergeVars],
                   promise = on_render
                     (mandrillClient (render_request templateName code mergeVars))\<rparr>))"

text \<open>
  The merge-variable list as the specification words it: one entry per key, pairing the
  key's name with its value, in iteration order.
\<close>

definition merge_variables_of :: "jsval \<Rightarrow> jsval list" where
  "merge_variables_of params = map (\<lambda>(k, v). merge_var k v) (own_enumerable params)"

section \<open>Sample vendors\<close>

text \<open>A payment SDK that answers every call with the same \<open>(err, result)\<close>.\<close>

definition replying :: "jsval \<Rightarrow> jsval \<Rightarrow> stripe_sdk" where
  "replying err result c = Some (err, result)"

text \<open>
  A mail SDK that knows the template and renders it, and one whose lookup fails although
  a render call would succeed.
\<close>

fun welcome_client :: mandrill_client where
  "welcome_client (Request TemplatesInfo r) =
     OnSuccess (JObj [(''code'', JStr ''<div>{{name}}</div>'')])"
| "welcome_client (Request TemplatesRender r) =
     OnSuccess (JObj [(''html'', JStr ''<div>Ana</div>''), (''subject'', JStr ''Welcome'')])"

fun unknown_template_client :: mandrill_client where
  "unknown_template_client (Request TemplatesInfo r) = OnError (JError ''Unknown_Template'')"
| "unknown_template_client (Request TemplatesRender r) =
     OnSuccess (JObj [(''html'', JStr ''<div>Ana</div>'')])"

section \<open>Lemmas\<close>

lemmas operation_defs =
  createTransaction_def getTransaction_def listTransactions_def
  createUser_def getUser_def updateUser_def deleteUser_def listUsers_def
  createToken_def getToken_def createAccount_def
  createCard_def getCard_def deleteCard_def listCards_def

lemmas check_defs = failing_def throwing_def is_required_def fails_check_def

lemma isNaN_abc: "isNaN (JStr ''abc'') = Inr True"
  by (simp add: isNaN_def string_to_number_def trim_def is_ws_def non_decimal_def
      signed_decimal_def unsigned_decimal_def is_dec_def digit_of_def)

lemma ToNumber_empty_string: "ToNumber (JStr []) = Inr (Finite 0)"
  by (simp add: string_to_number_def trim_def)

lemma missing_or_empty_falsy: "missing_or_empty v \<Longrightarrow> \<not> truthy v"
  by (auto simp add: missing_or_empty_def)

lemma check_message_names: "take (length name) (check_message name) = name"
  by (simp add: check_message_def)

lemma only_TypeError: "(exn :: js_exception) = TypeError"
  by (cases exn) simp

text \<open>
  The three ways a call can go: a guard throws, a guard holds, or the vendor is called.
\<close>

lemma throwing_guard_throws:
  "throwing op args \<noteq> [] \<Longrightarrow> invoke stripe op args = Inl TypeError"
  by (cases op)
     (auto simp add: operation_defs check_defs upt_rec eval_nat_numeral isl_def only_TypeError
           split: if_splits sum.splits)


lemma none_failing_issues:
  "failing op args = [] \<Longrightarrow> throwing op args = [] \<Longrightarrow>
   \<exists>c. invoke stripe op args =
     Inr \<lparr>calls = [c],
          promise = (if is_list_operation op then on_list_reply (stripe c)
                     else on_reply (stripe c))\<rparr>"
  by (cases op)
     (auto simp add: operation_defs check_defs is_list_operation_def issue_def issue_list_def
        upt_rec eval_nat_numeral Let_def split: if_splits sum.splits)

text \<open>
  A list operation whose vendor reports success with no result at all never settles.
\<close>

lemma list_reply_without_result:
  "result = JUndefined \<or> result = JNull \<Longrightarrow>
   on_list_reply (Some (err, result)) = (if truthy err then Rejected err else Pending)"
  by auto

text \<open>
  The two halves of the transaction scenario that the code does satisfy: \<open>"abc"\<close> is
  rejected before any vendor call, and a missing currency is sent as \<open>"usd"\<close>.
\<close>

lemma abc_amount_rejected:
  "createTransaction stripe (JStr ''abc'') stripeToken currency =
     Inr \<lparr>calls = [],
          promise = Rejected (JError ''amount is required and must be a number'')\<rparr>"
  using isNaN_abc by (simp add: createTransaction_def reject_with_def)

lemma default_currency_usd:
  "truthy stripeToken \<Longrightarrow>
   createTransaction stripe (JNum (Finite 500)) stripeToken JUndefined =
     Inr (issue stripe (Call ChargesCreate [JObj [(''amount'', JNum (Finite 500)),
                                                  (''currency'', JStr ''usd''),
                                                  (''customer'', stripeToken)]]))"
  by (simp add: createTransaction_def isNaN_def js_or_def Let_def)

lemma push_merge_vars_append:
  "push_merge_vars params ks acc =
     acc @ map (\<lambda>k. merge_var k (get_computed params k)) ks"
  by (induction ks arbitrary: acc) simp_all

lemma entries_of_distinct_keys:
  assumes "distinct (map fst ps)"
  shows "map (\<lambda>k. merge_var k (case map_of ps k of Some x \<Rightarrow> x | None \<Rightarrow> JUndefined)) (map fst ps)
       = map (\<lambda>(k, v). merge_var k v) ps"
proof -
  have "\<And>p. p \<in> set ps \<Longrightarrow> map_of ps (fst p) = Some (snd p)"
    using assms by (simp add: map_of_is_SomeI)
  then show ?thesis
    by (simp add: case_prod_beta)
qed

lemma push_merge_vars_spec:
  assumes "distinct (for_in_keys params)"
  shows "push_merge_vars params (for_in_keys params) [] = merge_variables_of params"
proof -
  have "distinct (map fst (own_enumerable params))"
    using assms by (simp only: for_in_keys_def)
  then have "map (\<lambda>k. merge_var k (get_computed params k)) (map fst (own_enumerable params))
             = map (\<lambda>(k, v). merge_var k v) (own_enumerable params)"
    unfolding get_computed_def by (rule entries_of_distinct_keys)
  then show ?thesis
    by (simp only: push_merge_vars_append for_in_keys_def merge_variables_of_def append_Nil)
qed

section \<open>Precondition checks of the payment client\<close>

text \<open>
  C1 asks that a call with one required argument missing or empty be rejected with no
  vendor call. The amount of \<open>createTransaction\<close> is required, and the code's own message
  reads "amount is required and must be a number", yet \<open>createTransaction(null, "tok_1")\<close>
  issues the charge-create call with the \<open>null\<close> amount, and the future is not rejected:
  \<open>isNaN(null)\<close> is false.
\<close>

theorem null_amount_reaches_vendor:
  "missing_or_empty JNull \<and> is_required CreateTransaction 0
   \<and> invoke silent_sdk CreateTransaction [JNull, JStr ''tok_1'']
     = Inr \<lparr>calls = [Call ChargesCreate [JObj [(''amount'', JNull),
                                               (''currency'', JStr ''usd''),
                                               (''customer'', JStr ''tok_1'')]]],
            promise = Pending\<rparr>"
  by (simp add: missing_or_empty_def is_required_def createTransaction_def arg_def isNaN_def
      js_or_def issue_def silent_sdk_def)




section \<open>Bridging the vendor callback\<close>

text \<open>
  C2. When the preconditions pass, that is, no guard throws and no required argument
  fails its check, the operation issues exactly one vendor call. If the callback's \<open>err\<close>
  is truthy the future is rejected with that very value; otherwise it is resolved with the
  callback's result as it is, except that the three list operations resolve with the
  \<open>data\<close> property read from the result.
\<close>

theorem vendor_reply_is_bridged:
  "failing op args = [] \<Longrightarrow> throwing op args = [] \<Longrightarrow>
   \<exists>c out. invoke stripe op args = Inr out \<and> calls out = [c]
     \<and> (\<forall>err result. stripe c = Some (err, result) \<longrightarrow>
          (truthy err \<longrightarrow> promise out = Rejected err)
        \<and> (\<not> truthy err \<and> \<not> is_list_operation op \<longrightarrow> promise out = Resolved result)
        \<and> (\<not> truthy err \<and> is_list_operation op \<longrightarrow>
             (\<forall>d. get_field ''data'' result = Inr d \<longrightarrow> promise out = Resolved d)))"
proof -
  assume "failing op args = []" and "throwing op args = []"
  then obtain c where c: "invoke stripe op args =
     Inr \<lparr>calls = [c],
          promise = (if is_list_operation op then on_list_reply (stripe c)
                     else on_reply (stripe c))\<rparr>"
    using none_failing_issues by blast
  show ?thesis
    by (rule exI [of _ c]) (auto simp add: c)
qed

text \<open>
  \<open>createUser("a@b.com", {})\<close> resolves with the customer the vendor returns;
  \<open>listCards("cus_1")\<close> resolves with the array inside the envelope, and is rejected with
  the vendor's error when there is one.
\<close>

theorem vendor_reply_is_bridged_witness:
  "failing CreateUser [JStr ''a@b.com'', JObj []] = []
   \<and> throwing CreateUser [JStr ''a@b.com'', JObj []] = []
   \<and> invoke (replying JNull (JObj [(''id'', JStr ''cus_1'')])) CreateUser
        [JStr ''a@b.com'', JObj []]
     = Inr \<lparr>calls = [Call CustomersCreate [JObj [(''email'', JStr ''a@b.com''),
                                                  (''metadata'', JObj []),
                                                  (''description'', JStr [])]]],
            promise = Resolved (JObj [(''id'', JStr ''cus_1'')])\<rparr>
   \<and> failing ListCards [JStr ''cus_1''] = []
   \<and> throwing ListCards [JStr ''cus_1''] = []
   \<and> invoke (replying JNull (JObj [(''object'', JStr ''list''),
                                     (''data'', JArr [JObj [(''id'', JStr ''card_1'')]]),
                                     (''has_more'', JBool False)]))
        ListCards [JStr ''cus_1'']
     = Inr \<lparr>calls = [Call CustomersListCards [JStr ''cus_1'']],
            promise = Resolved (JArr [JObj [(''id'', JStr ''card_1'')]])\<rparr>
   \<and> invoke (replying (JError ''No such customer'') JUndefined) ListCards [JStr ''cus_1'']
     = Inr \<lparr>calls = [Call CustomersListCards [JStr ''cus_1'']],
            promise = Rejected (JError ''No such customer'')\<rparr>"
proof -
  have f1: "failing CreateUser [JStr ''a@b.com'', JObj []] = []"
    by (simp add: check_defs arg_def upt_rec eval_nat_numeral)
  have t1: "throwing CreateUser [JStr ''a@b.com'', JObj []] = []"
    by (simp add: check_defs arg_def upt_rec eval_nat_numeral)
  have f2: "failing ListCards [JStr ''cus_1''] = []"
    by (simp add: check_defs arg_def upt_rec eval_nat_numeral)
  have t2: "throwing ListCards [JStr ''cus_1''] = []"
    by (simp add: check_defs arg_def upt_rec eval_nat_numeral)
  show ?thesis
    using f1 t1 f2 t2
      vendor_reply_is_bridged [OF f1 t1, of "replying JNull (JObj [(''id'', JStr ''cus_1'')])"]
      vendor_reply_is_bridged [OF f2 t2, of "replying (JError ''No such customer'') JUndefined"]
    by (simp add: createUser_def listCards_def arg_def js_or_def issue_def issue_list_def
        replying_def)
qed

section \<open>Creating a transaction\<close>

text \<open>
  C4 asks that a non-numeric amount be rejected before any vendor call. The code's message
  reads "amount is required and must be a number", yet the amounts \<open>true\<close>, \<open>""\<close> and \<open>[]\<close>,
  none of them a number, pass the \<open>isNaN\<close> guard: with a stripe token the charge-create call
  is issued carrying them.
\<close>

theorem non_numeric_amount_reaches_vendor:
  "createTransaction silent_sdk (JBool True) (JStr ''tok_1'') JUndefined
     = Inr \<lparr>calls = [Call ChargesCreate [JObj [(''amount'', JBool True),
                                               (''currency'', JStr ''usd''),
                                               (''customer'', JStr ''tok_1'')]]],
            promise = Pending\<rparr>
   \<and> createTransaction silent_sdk (JStr []) (JStr ''tok_1'') JUndefined
     = Inr \<lparr>calls = [Call ChargesCreate [JObj [(''amount'', JStr []),
                                               (''currency'', JStr ''usd''),
                                               (''customer'', JStr ''tok_1'')]]],
            promise = Pending\<rparr>
   \<and> createTransaction silent_sdk (JArr []) (JStr ''tok_1'') JUndefined
     = Inr \<lparr>calls = [Call ChargesCreate [JObj [(''amount'', JArr []),
                                               (''currency'', JStr ''usd''),
                                               (''customer'', JStr ''tok_1'')]]],
            promise = Pending\<rparr>"
  using ToNumber_empty_string
  by (simp add: createTransaction_def isNaN_def js_or_def issue_def silent_sdk_def)

text \<open>
  C10. \<open>createTransaction\<close> returns its amount error exactly when \<open>isNaN(amount)\<close> is
  true, and throws exactly when \<open>isNaN(amount)\<close> throws. \<open>null\<close> and the empty string both
  convert to the number \<open>0\<close>, so they pass the amount check, and with a stripe token the
  charge-create call is issued carrying that \<open>null\<close> or empty-string amount.
\<close>

theorem amount_rejected_iff_isNaN:
  "(createTransaction stripe amount stripeToken currency =
      Inr \<lparr>calls = [],
           promise = Rejected (JError ''amount is required and must be a number'')\<rparr>)
    = (isNaN amount = Inr True)
   \<and> (createTransaction stripe amount stripeToken currency = Inl exn)
    = (isNaN amount = Inl exn)
   \<and> ToNumber JNull = Inr (Finite 0) \<and> ToNumber (JStr []) = Inr (Finite 0)
   \<and> isNaN JNull = Inr False \<and> isNaN (JStr []) = Inr False
   \<and> (truthy stripeToken \<longrightarrow>
        createTransaction stripe JNull stripeToken currency =
          Inr (issue stripe
                 (Call ChargesCreate [JObj [(''amount'', JNull),
                                            (''currency'', js_or currency (JStr ''usd'')),
                                            (''customer'', stripeToken)]]))
      \<and> createTransaction stripe (JStr []) stripeToken currency =
          Inr (issue stripe
                 (Call ChargesCreate [JObj [(''amount'', JStr []),
                                            (''currency'', js_or currency (JStr ''usd'')),
                                            (''customer'', stripeToken)]])))"
  using ToNumber_empty_string
  by (auto simp add: createTransaction_def reject_with_def issue_def isNaN_def Let_def
      split: sum.splits)

text \<open>
  \<open>createTransaction(null, "tok_1")\<close> and \<open>createTransaction("", "tok_1", "eur")\<close> reach the
  vendor; \<open>createTransaction(undefined, "tok_1")\<close> is rejected; and
  \<open>createTransaction({toString: 1}, "tok_1")\<close> throws.
\<close>

theorem amount_rejected_iff_isNaN_witness:
  "truthy (JStr ''tok_1'')
   \<and> createTransaction silent_sdk JNull (JStr ''tok_1'') JUndefined =
       Inr \<lparr>calls = [Call ChargesCreate [JObj [(''amount'', JNull),
                                                (''currency'', JStr ''usd''),
                                                (''customer'', JStr ''tok_1'')]]],
            promise = Pending\<rparr>
   \<and> createTransaction silent_sdk (JStr []) (JStr ''tok_1'') (JStr ''eur'') =
       Inr \<lparr>calls = [Call ChargesCreate [JObj [(''amount'', JStr []),
                                                (''currency'', JStr ''eur''),
                                                (''customer'', JStr ''tok_1'')]]],
            promise = Pending\<rparr>
   \<and> isNaN JUndefined = Inr True
   \<and> createTransaction silent_sdk JUndefined (JStr ''tok_1'') JUndefined =
       Inr \<lparr>calls = [],
            promise = Rejected (JError ''amount is required and must be a number'')\<rparr>
   \<and> isNaN (JObj [(''toString'', JNum (Finite 1))]) = Inl TypeError
   \<and> createTransaction silent_sdk (JObj [(''toString'', JNum (Finite 1))]) (JStr ''tok_1'')
        JUndefined = Inl TypeError"
  using amount_rejected_iff_isNaN [of silent_sdk JNull "JStr ''tok_1''" JUndefined TypeError]
        amount_rejected_iff_isNaN [of silent_sdk "JStr []" "JStr ''tok_1''" "JStr ''eur''" TypeError]
        amount_rejected_iff_isNaN [of silent_sdk JUndefined "JStr ''tok_1''" JUndefined TypeError]
        amount_rejected_iff_isNaN [of silent_sdk "JObj [(''toString'', JNum (Finite 1))]"
                                      "JStr ''tok_1''" JUndefined TypeError]
  by (simp add: isNaN_def issue_def js_or_def silent_sdk_def)


section \<open>Page size of the list operations\<close>

text \<open>
  C5. \<open>listTransactions()\<close> with no argument issues exactly one charges-list call with
  limit \<open>10\<close>, \<open>listTransactions(25)\<close> issues it with limit \<open>25\<close>, and \<open>listUsers()\<close> issues
  one customers-list call with limit \<open>10\<close>.
\<close>

theorem list_limit_defaults_to_ten:
  "listTransactions stripe JUndefined =
     \<lparr>calls = [Call ChargesList [JObj [(''limit'', JNum (Finite 10))]]],
      promise = on_list_reply (stripe (Call ChargesList [JObj [(''limit'', JNum (Finite 10))]]))\<rparr>
   \<and> listTransactions stripe (JNum (Finite 25)) =
     \<lparr>calls = [Call ChargesList [JObj [(''limit'', JNum (Finite 25))]]],
      promise = on_list_reply (stripe (Call ChargesList [JObj [(''limit'', JNum (Finite 25))]]))\<rparr>
   \<and> listUsers stripe JUndefined =
     \<lparr>calls = [Call CustomersList [JObj [(''limit'', JNum (Finite 10))]]],
      promise = on_list_reply (stripe (Call CustomersList [JObj [(''limit'', JNum (Finite 10))]]))\<rparr>
   \<and> invoke stripe ListTransactions [] = Inr (listTransactions stripe JUndefined)
   \<and> invoke stripe ListUsers [] = Inr (listUsers stripe JUndefined)"
  by (simp add: listTransactions_def listUsers_def issue_list_def js_or_def arg_def Let_def)

text \<open>The same calls against an SDK that never answers.\<close>

theorem list_limit_defaults_to_ten_witness:
  "calls (listTransactions silent_sdk JUndefined) =
     [Call ChargesList [JObj [(''limit'', JNum (Finite 10))]]]
   \<and> length (calls (listTransactions silent_sdk JUndefined)) = 1
   \<and> calls (listTransactions silent_sdk (JNum (Finite 25))) =
     [Call ChargesList [JObj [(''limit'', JNum (Finite 25))]]]
   \<and> invoke silent_sdk ListUsers [] =
     Inr \<lparr>calls = [Call CustomersList [JObj [(''limit'', JNum (Finite 10))]]],
          promise = Pending\<rparr>"
  using list_limit_defaults_to_ten [of silent_sdk] by (simp add: silent_sdk_def)

text \<open>
  C9. Every falsy limit, \<open>0\<close> included, makes \<open>listTransactions\<close> and \<open>listUsers\<close> issue
  their list call with limit \<open>10\<close>.
\<close>

theorem falsy_limit_defaults_to_ten:
  "\<not> truthy limit \<Longrightarrow>
   calls (listTransactions stripe limit) =
     [Call ChargesList [JObj [(''limit'', JNum (Finite 10))]]]
   \<and> calls (listUsers stripe limit) =
     [Call CustomersList [JObj [(''limit'', JNum (Finite 10))]]]"
  by (simp add: listTransactions_def listUsers_def issue_list_def js_or_def Let_def)

text \<open>\<open>listTransactions(0)\<close> and \<open>listUsers(0)\<close>.\<close>

theorem falsy_limit_defaults_to_ten_witness:
  "\<not> truthy (JNum (Finite 0))
   \<and> calls (listTransactions silent_sdk (JNum (Finite 0))) =
     [Call ChargesList [JObj [(''limit'', JNum (Finite 10))]]]
   \<and> calls (listUsers silent_sdk (JNum (Finite 0))) =
     [Call CustomersList [JObj [(''limit'', JNum (Finite 10))]]]"
proof -
  have z: "\<not> truthy (JNum (Finite 0))" by simp
  show ?thesis using z falsy_limit_defaults_to_ten [OF z, of silent_sdk] by simp
qed

section \<open>Updating a user\<close>

text \<open>
  C6. Once \<open>userId\<close> and \<open>userObject\<close> pass their checks, \<open>updateUser\<close> issues the
  customers retrieve call, which is not the update call, with the update payload in the
  position of the retrieval options, and resolves with the result of that call.
\<close>

theorem updateUser_issues_retrieve:
  "truthy userId \<Longrightarrow> truthy userObject \<Longrightarrow>
   calls (updateUser stripe userId userObject) = [Call CustomersRetrieve [userId, userObject]]
   \<and> CustomersRetrieve \<noteq> CustomersUpdate
   \<and> promise (updateUser stripe userId userObject) =
       on_reply (stripe (Call CustomersRetrieve [userId, userObject]))
   \<and> (\<forall>err customer.
         stripe (Call CustomersRetrieve [userId, userObject]) = Some (err, customer) \<longrightarrow>
         \<not> truthy err \<longrightarrow>
         promise (updateUser stripe userId userObject) = Resolved customer)"
  by (simp add: updateUser_def issue_def)

text \<open>
  \<open>updateUser("cus_1", {email: "new@b.com"})\<close> resolves with the customer as retrieved.
\<close>

theorem updateUser_issues_retrieve_witness:
  "truthy (JStr ''cus_1'') \<and> truthy (JObj [(''email'', JStr ''new@b.com'')])
   \<and> updateUser (replying JNull (JObj [(''id'', JStr ''cus_1''), (''email'', JStr ''old@b.com'')]))
        (JStr ''cus_1'') (JObj [(''email'', JStr ''new@b.com'')])
     = \<lparr>calls = [Call CustomersRetrieve
                     [JStr ''cus_1'', JObj [(''email'', JStr ''new@b.com'')]]],
        promise = Resolved (JObj [(''id'', JStr ''cus_1''), (''email'', JStr ''old@b.com'')])\<rparr>"
proof -
  have a: "truthy (JStr ''cus_1'')" by simp
  have b: "truthy (JObj [(''email'', JStr ''new@b.com'')])" by simp
  show ?thesis
    using a b
      updateUser_issues_retrieve [OF a b, of "replying JNull (JObj [(''id'', JStr ''cus_1''), (''email'', JStr ''old@b.com'')])"]
    by (simp add: replying_def)
qed

section \<open>Rendering a template\<close>

text \<open>
  C7. When the template lookup of \<open>getContent\<close> fails, the returned future is rejected
  with the lookup error as it is, and no render call is issued.
\<close>

theorem getContent_lookup_failure:
  "mandrillClient (info_request templateName) = OnError err \<Longrightarrow>
   getContent mandrillClient templateName params =
     \<lparr>calls = [info_request templateName], promise = Rejected err\<rparr>
   \<and> (\<forall>r. Request TemplatesRender r \<notin> set (calls (getContent mandrillClient templateName params)))"
  by (simp add: getContent_def info_request_def)

text \<open>A client whose lookup fails, although a render call would succeed.\<close>

theorem getContent_lookup_failure_witness:
  "unknown_template_client (info_request (JStr ''welcome'')) = OnError (JError ''Unknown_Template'')
   \<and> getContent unknown_template_client (JStr ''welcome'') (JObj [(''name'', JStr ''Ana'')]) =
     \<lparr>calls = [Request TemplatesInfo (JObj [(''name'', JStr ''welcome'')])],
      promise = Rejected (JError ''Unknown_Template'')\<rparr>"
proof -
  have e: "unknown_template_client (info_request (JStr ''welcome'')) = OnError (JError ''Unknown_Template'')"
    by (simp add: info_request_def)
  show ?thesis
    using e getContent_lookup_failure [of unknown_template_client "JStr ''welcome''" "JError ''Unknown_Template''"
                      "JObj [(''name'', JStr ''Ana'')]", OF e]
    by (simp add: info_request_def)
qed

text \<open>
  C8. When the template lookup succeeds, the render call receives the \<open>code\<close> of the
  lookup result and a merge-variable list with exactly one entry per key of \<open>params\<close>,
  each pairing the key's name with its value, in iteration order; when the render succeeds
  the future resolves with the rendered \<open>html\<close> alone. The keys of an object are distinct.
\<close>

theorem getContent_renders_with_merge_variables:
  "mandrillClient (info_request templateName) = OnSuccess result \<Longrightarrow>
   get_field ''code'' result = Inr code \<Longrightarrow>
   distinct (for_in_keys params) \<Longrightarrow>
   calls (getContent mandrillClient templateName params) =
     [info_request templateName,
      Request TemplatesRender
        (JObj [(''template_name'', templateName),
               (''template_content'', code),
               (''merge_vars'', JArr (merge_variables_of params))])]
   \<and> length (merge_variables_of params) = length (for_in_keys params)
   \<and> (\<forall>content html.
        mandrillClient (render_request templateName code (merge_variables_of params))
          = OnSuccess content \<longrightarrow>
        get_field ''html'' content = Inr html \<longrightarrow>
        promise (getContent mandrillClient templateName params) = Resolved html)"
  by (simp add: getContent_def push_merge_vars_spec render_request_def Let_def)
     (simp add: merge_variables_of_def for_in_keys_def)

text \<open>
  \<open>getContent("welcome", {name: "Ana"})\<close> with the render answering \<open><div>Ana</div>\<close> among
  other fields resolves to exactly that string.
\<close>

theorem getContent_renders_with_merge_variables_witness:
  "welcome_client (info_request (JStr ''welcome''))
     = OnSuccess (JObj [(''code'', JStr ''<div>{{name}}</div>'')])
   \<and> get_field ''code'' (JObj [(''code'', JStr ''<div>{{name}}</div>'')])
     = Inr (JStr ''<div>{{name}}</div>'')
   \<and> distinct (for_in_keys (JObj [(''name'', JStr ''Ana'')]))
   \<and> getContent welcome_client (JStr ''welcome'') (JObj [(''name'', JStr ''Ana'')]) =
     \<lparr>calls = [Request TemplatesInfo (JObj [(''name'', JStr ''welcome'')]),
                Request TemplatesRender
                  (JObj [(''template_name'', JStr ''welcome''),
                         (''template_content'', JStr ''<div>{{name}}</div>''),
                         (''merge_vars'',
                          JArr [JObj [(''name'', JStr ''name''), (''content'', JStr ''Ana'')]])])],
      promise = Resolved (JStr ''<div>Ana</div>'')\<rparr>"
proof -
  have a: "welcome_client (info_request (JStr ''welcome''))
     = OnSuccess (JObj [(''code'', JStr ''<div>{{name}}</div>'')])"
    by (simp add: info_request_def)
  have b: "get_field ''code'' (JObj [(''code'', JStr ''<div>{{name}}</div>'')])
     = Inr (JStr ''<div>{{name}}</div>'')"
    by simp
  have c: "distinct (for_in_keys (JObj [(''name'', JStr ''Ana'')]))"
    by (simp add: for_in_keys_def)
  show ?thesis
    using a b c
      getContent_renders_with_merge_variables [of welcome_client "JStr ''welcome''" "JObj [(''code'', JStr ''<div>{{name}}</div>'')]"
                 "JStr ''<div>{{name}}</div>''" "JObj [(''name'', JStr ''Ana'')]", OF a b c]
    by (simp add: getContent_def info_request_def render_request_def for_in_keys_def
        get_computed_def merge_var_def Let_def)
qed

end
